theory Spec2Isabelle
  imports Main
begin

section \<open>JavaScript values\<close>

text \<open>
  The TypeScript signatures type the configuration fields as strings, but nothing is
  checked at run time, and \<^verbatim>\<open>Validate.nonNullEmpty\<close> tests for \<^verbatim>\<open>null\<close> and
  \<^verbatim>\<open>undefined\<close> explicitly. A value that reaches these functions is therefore
  \<^verbatim>\<open>null\<close>, \<^verbatim>\<open>undefined\<close> or a string.
\<close>

datatype jsval = Null | Undefined | Str string

text \<open>String conversion, as string concatenation and \<^verbatim>\<open>String.prototype.replace\<close> apply it.\<close>

fun to_string :: "jsval \<Rightarrow> string" where
  "to_string Null = ''null''"
| "to_string Undefined = ''undefined''"
| "to_string (Str s) = s"

section \<open>namespaces/Validate.ts\<close>

text \<open>
  \<^verbatim>\<open>
  export function nonNullEmpty(...values: string[]): boolean {
      for (const value of values) {
          if (value === null || value === undefined || value === "") {
              return false;
          }
      }
      return true;
  }
  \<close>
\<close>

fun nonNullEmpty :: "jsval list \<Rightarrow> bool" where
  "nonNullEmpty [] = True"
| "nonNullEmpty (v # values) =
     (if v = Null \<or> v = Undefined \<or> v = Str '''' then False else nonNullEmpty values)"

section \<open>namespaces/Strings.ts\<close>

text \<open>
  \<^verbatim>\<open>
  export function format(str: string, ...args: any[]): string {
      return str.replace(/{(\d+)}/g, function (match, number) {
          return typeof args[number] != 'undefined' ? args[number] : match;
      });
  }
  \<close>
  The regular expression matches an opening brace, one or more decimal digits and a
  closing brace. A global replace scans the subject once from the left: at each position
  it either finds a match there, emits the replacement and resumes after the match, or
  copies one character. The replacement text is never scanned again.
\<close>

definition is_digit :: "char \<Rightarrow> bool" where
  "is_digit c = (c \<in> set ''0123456789'')"

definition digit_val :: "char \<Rightarrow> nat" where
  "digit_val c = of_char c - 48"

text \<open>
  \<^verbatim>\<open>args[number]\<close> is a property lookup with the captured digit string as key. The key
  names an array element only when it is the canonical decimal form of the index (no
  leading zero); any other key, and an index past the end, reads \<^verbatim>\<open>undefined\<close>.
\<close>

definition array_index :: "string \<Rightarrow> nat option" where
  "array_index ds =
     (if ds = ''0'' then Some 0
      else if ds = [] then None
      else if hd ds = CHR ''0'' then None
      else Some (foldl (\<lambda>n c. 10 * n + digit_val c) 0 ds))"

definition args_get :: "jsval list \<Rightarrow> string \<Rightarrow> jsval" where
  "args_get args ds =
     (case array_index ds of
        None \<Rightarrow> Undefined
      | Some i \<Rightarrow> if i < length args then args ! i else Undefined)"

text \<open>The callback handed to \<^verbatim>\<open>replace\<close>; its result is converted to a string.\<close>

definition replacer :: "jsval list \<Rightarrow> string \<Rightarrow> string" where
  "replacer args ds =
     (case args_get args ds of
        Undefined \<Rightarrow> ''{'' @ ds @ ''}''
      | v \<Rightarrow> to_string v)"

function format :: "string \<Rightarrow> jsval list \<Rightarrow> string" where
  "format [] args = []"
| "format (c # cs) args =
     (if c = CHR ''{'' then
        (let ds = takeWhile is_digit cs; rest = dropWhile is_digit cs in
         if ds = [] then c # format cs args
         else (case rest of
                 [] \<Rightarrow> c # format cs args
               | r # rest' \<Rightarrow>
                   if r = CHR ''}'' then replacer args ds @ format rest' args
                   else c # format cs args))
      else c # format cs args)"
  by pat_completeness auto
termination
proof (relation "measure (\<lambda>(s, args). length s)")
  show "wf (measure (\<lambda>(s, args). length s))" by simp
next
  fix c :: char and cs args ds rest r rest'
  assume "rest = dropWhile is_digit cs" and "rest = r # rest'"
  then have "length (r # rest') \<le> length cs"
    by (metis length_dropWhile_le)
  then show "((rest', args), (c # cs, args)) \<in> measure (\<lambda>(s, args). length s)"
    by simp
qed simp_all

section \<open>obj/BrowsingSession.ts: logging\<close>

text \<open>
  \<^verbatim>\<open>
  const basicLogFormat: string = "[BrowsingSession-{0}] [{1}] [{2}] {3}";

  const log = (message: string, from: string, level?: "info" | "warn" | "error") => {
      switch (level) {
          case "warn":
              console.warn(Strings.format(basicLogFormat, "WARN", new Date().toLocaleTimeString(), from, message));
              break;
          case "error":
              console.error(Strings.format(basicLogFormat, "ERROR", new Date().toLocaleTimeString(), from, message));
              break;
          default:
              console.log(Strings.format(basicLogFormat, "LOG", new Date().toLocaleTimeString(), from, message));
      }
  };
  \<close>
  The wall-clock string \<^verbatim>\<open>new Date().toLocaleTimeString()\<close> is an input of the model
  (\<open>time\<close>). The result is the console method called and the line handed to it. An
  omitted level is \<open>None\<close>.
\<close>

definition basicLogFormat :: string where
  "basicLogFormat = ''[BrowsingSession-{0}] [{1}] [{2}] {3}''"

datatype level = Info | Warn | Error

datatype console = ConsoleLog | ConsoleWarn | ConsoleError

definition log :: "string \<Rightarrow> string \<Rightarrow> string \<Rightarrow> level option \<Rightarrow> console \<times> string" where
  "log time message from lvl =
     (case lvl of
        Some Warn \<Rightarrow> (ConsoleWarn, format basicLogFormat [Str ''WARN'', Str time, Str from, Str message])
      | Some Error \<Rightarrow> (ConsoleError, format basicLogFormat [Str ''ERROR'', Str time, Str from, Str message])
      | _ \<Rightarrow> (ConsoleLog, format basicLogFormat [Str ''LOG'', Str time, Str from, Str message]))"

section \<open>obj/BrowsingSession.ts: data\<close>

text \<open>
  \<^verbatim>\<open>
  interface CaptchaOptions { id: CaptchaProvider; token: string; visualFeedback?: boolean; }
  interface LoginOptions { username: string; password: string; }
  type LoginResults = "LOGIN_SUCCESS" | "USERNAME_FIELD_RELATED" | "PASSWORD_FIELD_RELATED" |
      "CAPTCHA_FIELD_RELATED" | "INVALID_CREDENTIALS" | "PAGE_OTHER_ERROR";
  \<close>
  The field \<^verbatim>\<open>id\<close> is \<open>id_captcha\<close> here, since \<open>id\<close> is the identity function of HOL.
\<close>

record CaptchaOptions =
  id_captcha :: jsval
  token :: jsval
  visualFeedback :: "bool option"

record LoginOptions =
  username :: jsval
  password :: jsval

definition LoginResults :: "string list" where
  "LoginResults =
     [''LOGIN_SUCCESS'', ''USERNAME_FIELD_RELATED'', ''PASSWORD_FIELD_RELATED'',
      ''CAPTCHA_FIELD_RELATED'', ''INVALID_CREDENTIALS'', ''PAGE_OTHER_ERROR'']"

definition dashboard :: string where
  "dashboard = ''https://autofaucet.org/dashboard''"

text \<open>The handles puppeteer hands out; the session owns one of each.\<close>

datatype Browser = Browser
datatype Page = Page

text \<open>The fields of the class; \<open>this\<close> is a value of this record.\<close>

record BrowsingSession =
  loginOptions :: LoginOptions
  session :: "Browser option"
  page :: "Page option"
  captchaOptions :: "CaptchaOptions option"
  debug :: bool

section \<open>The world outside: promises and effects\<close>

text \<open>
  A promise of an external call either fulfils with a value or rejects with an error,
  kept as the string \<^verbatim>\<open>log\<close> would print.
\<close>

datatype 'a promise = Fulfilled 'a | Rejected string

text \<open>
  What the browser and the page answer, one entry per call the session makes. Clicks and
  keystrokes are told apart by their selector, the two navigation waits by their
  \<^verbatim>\<open>waitUntil\<close> option. The type \<open>'r\<close> is the solving library's
  \<^verbatim>\<open>SolveRecaptchasResult\<close>.
\<close>

record 'r env =
  launch_result :: "Browser promise"
  newPage_result :: "Page promise"
  goto_result :: "unit promise"
  waitForNavigation_result :: "string option \<Rightarrow> unit promise"
  click_result :: "string \<Rightarrow> unit promise"
  type_result :: "string \<Rightarrow> unit promise"
  solveRecaptchas_result :: "'r promise"
  page_url :: string

text \<open>
  The calls the session makes on the outside world, in program order. \<open>Log\<close> is a call
  of \<^verbatim>\<open>log(message, from, level)\<close>; \<open>UsePlugin\<close> is
  \<^verbatim>\<open>extra.use(RecaptchaPlugin({provider: {id, token}, visualFeedback}))\<close>; \<open>Launch\<close> is
  \<^verbatim>\<open>extra.launch({headless})\<close>.
\<close>

datatype effect =
    Log string string "level option"
  | UsePlugin jsval jsval bool
  | Launch bool
  | NewPage
  | Goto string
  | WaitForNavigation "string option"
  | Click string
  | TypeText string jsval
  | SolveRecaptchas

text \<open>
  A call of the \<^verbatim>\<open>resolve\<close> or \<^verbatim>\<open>reject\<close> function of the promise that
  \<^verbatim>\<open>login\<close> returns. A promise settles at the first such call and ignores every
  later one; with no call it stays pending (\<open>None\<close>).
\<close>

datatype settle = Resolve string | Reject string

definition settled :: "settle list \<Rightarrow> settle option" where
  "settled calls = (case calls of [] \<Rightarrow> None | c # _ \<Rightarrow> Some c)"

section \<open>obj/BrowsingSession.ts: solveCaptchas\<close>

text \<open>
  \<^verbatim>\<open>
  private async solveCaptchas(page: Page | null, captchaOptions: CaptchaOptions | null)
          : Promise<SolveRecaptchasResult | undefined> {
      let result: SolveRecaptchasResult | undefined = undefined;
      if (captchaOptions) {
          switch (captchaOptions.id) {
              case "capmonster":
                  log("Solving captcha with CapMonster", "CaptchaSolver", "info");
                  await page?.solveRecaptchas().then(res => result = res)
                      .catch(err => log(err, "CaptchaSolver", "error"));
                  break;
              case "2captcha":
                  // TODO: Implement 2captcha
                  break;
              default:
                  log("Invalid captcha provider specified", "CaptchaSolver", "error");
                  break;
          }
      }
      return result;
  }
  \<close>
  Every method takes \<open>this\<close> and returns it with the effects it performed and its
  result. The result is the promise of the async method: \<open>Fulfilled None\<close> is a return
  of \<^verbatim>\<open>undefined\<close>, \<open>Rejected\<close> a throw. With \<^verbatim>\<open>page\<close> null the optional chain
  \<^verbatim>\<open>page?.solveRecaptchas().then(...).catch(...)\<close> is skipped as a whole.
\<close>

definition solveCaptchas ::
  "'r env \<Rightarrow> BrowsingSession \<Rightarrow> Page option \<Rightarrow> CaptchaOptions option
     \<Rightarrow> BrowsingSession \<times> effect list \<times> 'r option promise" where
  "solveCaptchas env this pg copts =
     (case copts of
        None \<Rightarrow> (this, [], Fulfilled None)
      | Some c \<Rightarrow>
          if id_captcha c = Str ''capmonster'' then
            (case pg of
               None \<Rightarrow>
                 (this, [Log ''Solving captcha with CapMonster'' ''CaptchaSolver'' (Some Info)],
                  Fulfilled None)
             | Some _ \<Rightarrow>
                 (case solveRecaptchas_result env of
                    Fulfilled res \<Rightarrow>
                      (this,
                       [Log ''Solving captcha with CapMonster'' ''CaptchaSolver'' (Some Info),
                        SolveRecaptchas],
                       Fulfilled (Some res))
                  | Rejected err \<Rightarrow>
                      (this,
                       [Log ''Solving captcha with CapMonster'' ''CaptchaSolver'' (Some Info),
                        SolveRecaptchas,
                        Log err ''CaptchaSolver'' (Some Error)],
                       Fulfilled None)))
          else if id_captcha c = Str ''2captcha'' then (this, [], Fulfilled None)
          else
            (this, [Log ''Invalid captcha provider specified'' ''CaptchaSolver'' (Some Error)],
             Fulfilled None))"

section \<open>obj/BrowsingSession.ts: login\<close>

text \<open>
  \<^verbatim>\<open>
  await this.page?.click(selector)
      .then(async () => await this.page?.type(selector, text))
      .catch((_) => reject(tag));
  \<close>
  The chain that fills one field, written twice in \<^verbatim>\<open>login\<close>. It yields the effects
  and the calls of \<^verbatim>\<open>reject\<close>; execution goes on after it in either case.
\<close>

definition click_then_type ::
  "'r env \<Rightarrow> string \<Rightarrow> jsval \<Rightarrow> string \<Rightarrow> effect list \<times> settle list" where
  "click_then_type env selector text tag =
     (case click_result env selector of
        Rejected _ \<Rightarrow> ([Click selector], [Reject tag])
      | Fulfilled _ \<Rightarrow>
          (case type_result env selector of
             Rejected _ \<Rightarrow> ([Click selector, TypeText selector text], [Reject tag])
           | Fulfilled _ \<Rightarrow> ([Click selector, TypeText selector text], [])))"

text \<open>
  \<^verbatim>\<open>
  await this.solveCaptchas(this.page, this.captchaOptions)
      .then(async (resolve: SolveRecaptchasResult | undefined) => {
          if (typeof resolve === "undefined") reject("Failed to solve captcha");
          log("Successfully solved captcha! (Provider: " + this.captchaOptions?.id + ")",
              "CaptchaSolver", "info");
          await Promise.all([this.page?.waitForNavigation(), this.page?.click("button[type=submit]")]);
      }).catch((_) => reject("CAPTCHA_FIELD_RELATED"));
  \<close>
  Both calls inside \<^verbatim>\<open>Promise.all\<close> are made; the combined promise rejects when
  either does.
\<close>

definition solve_then_submit ::
  "'r env \<Rightarrow> BrowsingSession \<Rightarrow> BrowsingSession \<times> effect list \<times> settle list" where
  "solve_then_submit env this =
     (case solveCaptchas env this (page this) (captchaOptions this) of
        (this', es, Rejected _) \<Rightarrow> (this', es, [Reject ''CAPTCHA_FIELD_RELATED''])
      | (this', es, Fulfilled res) \<Rightarrow>
          (this',
           es @
           [Log (''Successfully solved captcha! (Provider: '' @
                 (case captchaOptions this' of
                    None \<Rightarrow> to_string Undefined
                  | Some c \<Rightarrow> to_string (id_captcha c)) @ '')'')
              ''CaptchaSolver'' (Some Info),
            WaitForNavigation None,
            Click ''button[type=submit]''],
           (case res of None \<Rightarrow> [Reject ''Failed to solve captcha''] | Some _ \<Rightarrow> []) @
           (case waitForNavigation_result env None of
              Rejected _ \<Rightarrow> [Reject ''CAPTCHA_FIELD_RELATED'']
            | Fulfilled _ \<Rightarrow>
                (case click_result env ''button[type=submit]'' of
                   Rejected _ \<Rightarrow> [Reject ''CAPTCHA_FIELD_RELATED'']
                 | Fulfilled _ \<Rightarrow> []))))"

text \<open>
  \<^verbatim>\<open>
  private async login(): Promise<LoginResults> {
      return new Promise(async (resolve, reject) => {
          await this.page?.waitForNavigation({ waitUntil: "networkidle0" }).then(async () => {
              // Type in username or reject if failed
              ... click_then_type "input[name=username]" ... "USERNAME_FIELD_RELATED"
              // Type in password or reject if failed
              ... click_then_type "input[name=password]" ... "PASSWORD_FIELD_RELATED"
              // Solve captchas if they exist
              ... solve_then_submit ...
              if (this.page?.url() === "https://autofaucet.org/dashboard") resolve("LOGIN_SUCCESS");
              reject("INVALID_CREDENTIALS");
          }).catch((_) => reject("PAGE_OTHER_ERROR"));
      });
  }
  \<close>
  The result lists every call of \<^verbatim>\<open>resolve\<close> and \<^verbatim>\<open>reject\<close> in the order the
  code makes them; \<open>settled\<close> of that list is the state of the returned promise. With
  \<^verbatim>\<open>this.page\<close> null the optional chain does nothing and the promise stays pending.
\<close>

definition login ::
  "'r env \<Rightarrow> BrowsingSession \<Rightarrow> BrowsingSession \<times> effect list \<times> settle list" where
  "login env this =
     (case page this of
        None \<Rightarrow> (this, [], [])
      | Some _ \<Rightarrow>
          (case waitForNavigation_result env (Some ''networkidle0'') of
             Rejected _ \<Rightarrow>
               (this, [WaitForNavigation (Some ''networkidle0'')], [Reject ''PAGE_OTHER_ERROR''])
           | Fulfilled _ \<Rightarrow>
               (case click_then_type env ''input[name=username]''
                       (username (loginOptions this)) ''USERNAME_FIELD_RELATED'' of
                  (es1, calls1) \<Rightarrow>
               (case click_then_type env ''input[name=password]''
                       (password (loginOptions this)) ''PASSWORD_FIELD_RELATED'' of
                  (es2, calls2) \<Rightarrow>
               (case solve_then_submit env this of
                  (this', es3, calls3) \<Rightarrow>
                    (this',
                     WaitForNavigation (Some ''networkidle0'') # es1 @ es2 @ es3,
                     calls1 @ calls2 @ calls3 @
                     (if page_url env = dashboard then [Resolve ''LOGIN_SUCCESS''] else []) @
                     [Reject ''INVALID_CREDENTIALS'']))))))"

section \<open>obj/BrowsingSession.ts: run\<close>

text \<open>
  \<^verbatim>\<open>
  public async run(): Promise<void> {
      log("Starting browsing session", "BrowsingSession", "info");
      this.session = await extra.launch({ headless: !this.debug });
      log("Session started, continuing to open page", "BrowsingSession", "info");
      this.page = await this.session.newPage();
      await this.page.goto("https://autofaucet.org/dashboard")
          .then(async () =>
              await this.login()
                  .then(async (result: LoginResults) => log("Result for login attempt: " + result, "Login", "info"))
                  .catch(err => log(err, "Login", "error"))
          ).catch((err) => log(err, "Page", "error"));
  }
  \<close>
  The promise \<^verbatim>\<open>run\<close> returns fulfils, rejects (a failed launch or a failed
  \<^verbatim>\<open>newPage\<close> is not caught), or stays pending with the promise of \<^verbatim>\<open>login\<close>.
  The effects of \<^verbatim>\<open>login\<close> are listed before the line its handler logs.
\<close>

datatype run_result = RunFulfilled | RunRejected string | RunPending

definition run :: "'r env \<Rightarrow> BrowsingSession \<Rightarrow> BrowsingSession \<times> effect list \<times> run_result" where
  "run env this =
     (case launch_result env of
        Rejected err \<Rightarrow>
          (this,
           [Log ''Starting browsing session'' ''BrowsingSession'' (Some Info),
            Launch (\<not> debug this)],
           RunRejected err)
      | Fulfilled b \<Rightarrow>
          (case newPage_result env of
             Rejected err \<Rightarrow>
               (this\<lparr>session := Some b\<rparr>,
                [Log ''Starting browsing session'' ''BrowsingSession'' (Some Info),
                 Launch (\<not> debug this),
                 Log ''Session started, continuing to open page'' ''BrowsingSession'' (Some Info),
                 NewPage],
                RunRejected err)
           | Fulfilled p \<Rightarrow>
               (case goto_result env of
                  Rejected err \<Rightarrow>
                    (this\<lparr>session := Some b, page := Some p\<rparr>,
                     [Log ''Starting browsing session'' ''BrowsingSession'' (Some Info),
                      Launch (\<not> debug this),
                      Log ''Session started, continuing to open page'' ''BrowsingSession'' (Some Info),
                      NewPage,
                      Goto dashboard,
                      Log err ''Page'' (Some Error)],
                     RunFulfilled)
                | Fulfilled _ \<Rightarrow>
                    (case login env (this\<lparr>session := Some b, page := Some p\<rparr>) of
                       (this', es, calls) \<Rightarrow>
                         (this',
                          [Log ''Starting browsing session'' ''BrowsingSession'' (Some Info),
                           Launch (\<not> debug this),
                           Log ''Session started, continuing to open page'' ''BrowsingSession'' (Some Info),
                           NewPage,
                           Goto dashboard] @ es @
                          (case settled calls of
                             None \<Rightarrow> []
                           | Some (Resolve result) \<Rightarrow>
                               [Log (''Result for login attempt: '' @ result) ''Login'' (Some Info)]
                           | Some (Reject err) \<Rightarrow> [Log err ''Login'' (Some Error)]),
                          (case settled calls of None \<Rightarrow> RunPending | Some _ \<Rightarrow> RunFulfilled))))))"

section \<open>obj/BrowsingSession.ts: constructor\<close>

text \<open>
  \<^verbatim>\<open>
  public constructor(login: LoginOptions, captcha?: CaptchaOptions, debug?: boolean) {
      this.loginOptions = login;
      this.session = null;
      this.page = null;
      this.captchaOptions = captcha || null;
      this.debug = debug || false;
      if (this.captchaOptions) {
          if (!Validate.nonNullEmpty(this.captchaOptions.id, this.captchaOptions.token)) {
              log("Invalid captcha options provided", "CaptchaSolver", "error");
              return;
          }
          extra.use(RecaptchaPlugin({
              provider: { id: this.captchaOptions.id, token: this.captchaOptions.token },
              visualFeedback: this.captchaOptions.visualFeedback || false,
          }));
          log("Captcha options set, continuing to validate login options", "CaptchaSolver", "info");
      }
      if (!Validate.nonNullEmpty(this.loginOptions.username, this.loginOptions.password)) {
          log("Invalid login options provided", "Login", "error");
          return;
      }
      log("Login options set, continuing to run browsing session", "Login", "info");
      this.run();
  }
  \<close>
  The result is the object built, every effect the construction causes (those of the
  \<^verbatim>\<open>run\<close> it starts included), and the promise of \<^verbatim>\<open>run\<close> when it was called
  (\<open>None\<close> when the constructor returned early). An omitted \<^verbatim>\<open>captcha\<close> or
  \<^verbatim>\<open>debug\<close> argument is \<open>None\<close>. The source has no \<^verbatim>\<open>throw\<close> and the promise
  of \<^verbatim>\<open>run\<close> is dropped, so the constructor has no failing result.
\<close>

definition or_false :: "bool option \<Rightarrow> bool" where
  "or_false b = (case b of None \<Rightarrow> False | Some v \<Rightarrow> v)"

text \<open>The assignments that open the constructor.\<close>

definition new_session :: "LoginOptions \<Rightarrow> CaptchaOptions option \<Rightarrow> bool option \<Rightarrow> BrowsingSession" where
  "new_session login_opts captcha dbg =
     \<lparr>loginOptions = login_opts, session = None, page = None, captchaOptions = captcha,
      debug = or_false dbg\<rparr>"

text \<open>The second half of the constructor, from the validation of the login options on.\<close>

definition validate_login_then_run ::
  "'r env \<Rightarrow> BrowsingSession \<Rightarrow> BrowsingSession \<times> effect list \<times> run_result option" where
  "validate_login_then_run env this =
     (if \<not> nonNullEmpty [username (loginOptions this), password (loginOptions this)] then
        (this, [Log ''Invalid login options provided'' ''Login'' (Some Error)], None)
      else
        (case run env this of
           (this', es, r) \<Rightarrow>
             (this',
              Log ''Login options set, continuing to run browsing session'' ''Login'' (Some Info) # es,
              Some r)))"

definition constructor ::
  "'r env \<Rightarrow> LoginOptions \<Rightarrow> CaptchaOptions option \<Rightarrow> bool option
     \<Rightarrow> BrowsingSession \<times> effect list \<times> run_result option" where
  "constructor env login_opts captcha dbg =
     (case captchaOptions (new_session login_opts captcha dbg) of
        None \<Rightarrow> validate_login_then_run env (new_session login_opts captcha dbg)
      | Some c \<Rightarrow>
          if \<not> nonNullEmpty [id_captcha c, token c] then
            (new_session login_opts captcha dbg,
             [Log ''Invalid captcha options provided'' ''CaptchaSolver'' (Some Error)],
             None)
          else
            (case validate_login_then_run env (new_session login_opts captcha dbg) of
               (this', es, r) \<Rightarrow>
                 (this',
                  UsePlugin (id_captcha c) (token c) (or_false (visualFeedback c)) #
                  Log ''Captcha options set, continuing to validate login options''
                    ''CaptchaSolver'' (Some Info) # es,
                  r)))"

section \<open>main.ts and other concrete runs\<close>

text \<open>
  \<^verbatim>\<open>
  new BrowsingSession({ username: "", password: "" }, { id: "capmonster", token: "" }, true)
  \<close>
\<close>

definition main_login :: LoginOptions where
  "main_login = \<lparr>username = Str '''', password = Str ''''\<rparr>"

definition main_captcha :: CaptchaOptions where
  "main_captcha = \<lparr>id_captcha = Str ''capmonster'', token = Str '''', visualFeedback = None\<rparr>"

text \<open>
  A page on which every call succeeds and the browser ends on the dashboard; the other
  environments below change one answer each.
\<close>

definition env_ok :: "unit env" where
  "env_ok =
     \<lparr>launch_result = Fulfilled Browser, newPage_result = Fulfilled Page,
      goto_result = Fulfilled (),
      waitForNavigation_result = (\<lambda>_. Fulfilled ()),
      click_result = (\<lambda>_. Fulfilled ()),
      type_result = (\<lambda>_. Fulfilled ()),
      solveRecaptchas_result = Fulfilled (),
      page_url = dashboard\<rparr>"

text \<open>The click on the username field fails (the field is missing).\<close>

definition env_no_username :: "unit env" where
  "env_no_username =
     env_ok\<lparr>click_result :=
       (\<lambda>sel. if sel = ''input[name=username]'' then Rejected ''No node found for selector''
              else Fulfilled ()),
       page_url := ''https://autofaucet.org/login''\<rparr>"

text \<open>The navigation wait after the submit click times out although the URL has changed.\<close>

definition env_submit_timeout :: "unit env" where
  "env_submit_timeout =
     env_ok\<lparr>waitForNavigation_result :=
       (\<lambda>w. if w = None then Rejected ''Navigation timeout'' else Fulfilled ())\<rparr>"

text \<open>The same, with the browser left on the login page.\<close>

definition env_submit_timeout_login :: "unit env" where
  "env_submit_timeout_login = env_submit_timeout\<lparr>page_url := ''https://autofaucet.org/login''\<rparr>"

text \<open>All calls succeed, and the site answers the submission with the login page again.\<close>

definition env_bad_credentials :: "unit env" where
  "env_bad_credentials = env_ok\<lparr>page_url := ''https://autofaucet.org/login''\<rparr>"

definition user_login :: LoginOptions where
  "user_login = \<lparr>username = Str ''alice'', password = Str ''secret''\<rparr>"

definition capmonster_options :: CaptchaOptions where
  "capmonster_options =
     \<lparr>id_captcha = Str ''capmonster'', token = Str ''key'', visualFeedback = None\<rparr>"

definition twocaptcha_options :: CaptchaOptions where
  "twocaptcha_options =
     \<lparr>id_captcha = Str ''2captcha'', token = Str ''key'', visualFeedback = None\<rparr>"

definition unknown_options :: CaptchaOptions where
  "unknown_options =
     \<lparr>id_captcha = Str ''anticaptcha'', token = Str ''key'', visualFeedback = None\<rparr>"

text \<open>The session as \<^verbatim>\<open>run\<close> leaves it before it calls \<^verbatim>\<open>login\<close>.\<close>

definition opened :: "CaptchaOptions option \<Rightarrow> BrowsingSession" where
  "opened captcha =
     (new_session user_login captcha None)\<lparr>session := Some Browser, page := Some Page\<rparr>"

section \<open>Vocabulary of the properties\<close>

text \<open>The state of the promise \<^verbatim>\<open>login\<close> returns, and the effects \<^verbatim>\<open>login\<close> performs.\<close>

definition login_outcome :: "'r env \<Rightarrow> BrowsingSession \<Rightarrow> settle option" where
  "login_outcome env this = settled (snd (snd (login env this)))"

definition login_effects :: "'r env \<Rightarrow> BrowsingSession \<Rightarrow> effect list" where
  "login_effects env this = fst (snd (login env this))"

text \<open>A value that \<^verbatim>\<open>Validate.nonNullEmpty\<close> turns down.\<close>

definition empty_value :: "jsval \<Rightarrow> bool" where
  "empty_value v = (v = Null \<or> v = Undefined \<or> v = Str '''')"

text \<open>
  The page became idle and both credential fields took their click and their text.
\<close>

definition fields_filled :: "'r env \<Rightarrow> bool" where
  "fields_filled env =
     (waitForNavigation_result env (Some ''networkidle0'') = Fulfilled () \<and>
      click_result env ''input[name=username]'' = Fulfilled () \<and>
      type_result env ''input[name=username]'' = Fulfilled () \<and>
      click_result env ''input[name=password]'' = Fulfilled () \<and>
      type_result env ''input[name=password]'' = Fulfilled ())"

text \<open>\<^verbatim>\<open>solveCaptchas\<close>, called as \<^verbatim>\<open>login\<close> calls it, returned a result.\<close>

definition captcha_solved :: "'r env \<Rightarrow> BrowsingSession \<Rightarrow> bool" where
  "captcha_solved env this =
     (case snd (snd (solveCaptchas env this (page this) (captchaOptions this))) of
        Fulfilled (Some _) \<Rightarrow> True
      | _ \<Rightarrow> False)"

text \<open>The submit click and the navigation wait started with it both completed.\<close>

definition submitted :: "'r env \<Rightarrow> bool" where
  "submitted env =
     (waitForNavigation_result env None = Fulfilled () \<and>
      click_result env ''button[type=submit]'' = Fulfilled ())"

fun is_Launch :: "effect \<Rightarrow> bool" where
  "is_Launch (Launch _) = True"
| "is_Launch _ = False"

fun is_UsePlugin :: "effect \<Rightarrow> bool" where
  "is_UsePlugin (UsePlugin _ _ _) = True"
| "is_UsePlugin _ = False"

text \<open>The level tag of a log line: WARN for warn, ERROR for error, LOG otherwise.\<close>

definition level_tag :: "level option \<Rightarrow> string" where
  "level_tag lvl =
     (if lvl = Some Warn then ''WARN'' else if lvl = Some Error then ''ERROR'' else ''LOG'')"

text \<open>The configuration held by a session.\<close>

definition config :: "BrowsingSession \<Rightarrow> LoginOptions \<times> CaptchaOptions option \<times> bool" where
  "config this = (loginOptions this, captchaOptions this, debug this)"

section \<open>Validation and log lines\<close>

lemma nonNullEmpty_iff_no_empty_value:
  "nonNullEmpty vs \<longleftrightarrow> (\<forall>v \<in> set vs. \<not> empty_value v)"
  by (induction vs) (auto simp: empty_value_def)

lemma nonNullEmpty_pair: "nonNullEmpty [a, b] \<longleftrightarrow> \<not> empty_value a \<and> \<not> empty_value b"
  by (simp add: empty_value_def)

text \<open>
  Claim C10. \<^verbatim>\<open>Validate.nonNullEmpty\<close> returns true exactly when no argument is
  \<^verbatim>\<open>null\<close>, \<^verbatim>\<open>undefined\<close> or the empty string; called with no argument at all it
  returns true.
\<close>

theorem nonNullEmpty_iff:
  "(nonNullEmpty vs \<longleftrightarrow> (\<forall>v \<in> set vs. v \<noteq> Null \<and> v \<noteq> Undefined \<and> v \<noteq> Str '''')) \<and>
   nonNullEmpty []"
  using nonNullEmpty_iff_no_empty_value[of vs] by (simp add: empty_value_def)

text \<open>Two non-empty strings pass; a list holding \<^verbatim>\<open>null\<close> does not.\<close>

theorem nonNullEmpty_iff_witness:
  "nonNullEmpty [Str ''alice'', Str ''secret''] \<and> \<not> nonNullEmpty [Str ''alice'', Null] \<and>
   nonNullEmpty []"
proof -
  have pass: "nonNullEmpty [Str ''alice'', Str ''secret'']"
    using nonNullEmpty_iff[of "[Str ''alice'', Str ''secret'']"] by simp
  have fail: "\<not> nonNullEmpty [Str ''alice'', Null]"
    using nonNullEmpty_iff[of "[Str ''alice'', Null]"] by simp
  from pass fail nonNullEmpty_iff[of "[]"] show ?thesis by blast
qed

text \<open>
  The four placeholders of \<open>basicLogFormat\<close> name the four arguments, and a replacement
  is not scanned again, so braces inside an argument stay as they are.
\<close>

lemma replacer_four:
  "replacer [Str l, Str t, Str f, Str m] ''0'' = l"
  "replacer [Str l, Str t, Str f, Str m] ''1'' = t"
  "replacer [Str l, Str t, Str f, Str m] ''2'' = f"
  "replacer [Str l, Str t, Str f, Str m] ''3'' = m"
  by (simp_all add: replacer_def args_get_def array_index_def digit_val_def)

lemma format_basicLogFormat:
  "format basicLogFormat [Str l, Str t, Str f, Str m] =
     ''[BrowsingSession-'' @ l @ ''] ['' @ t @ ''] ['' @ f @ ''] '' @ m"
  by (simp add: basicLogFormat_def is_digit_def replacer_four)

text \<open>
  Claim C8. Whatever the message, the source and the level, the line \<^verbatim>\<open>log\<close> prints is
  \<^verbatim>\<open>[BrowsingSession-<LEVEL>] [<time>] [<source>] <message>\<close>, with WARN for level
  warn, ERROR for level error and LOG for any other level or none.
\<close>

theorem log_line_format:
  "snd (log time message from lvl) =
     ''[BrowsingSession-'' @ level_tag lvl @ ''] ['' @ time @ ''] ['' @ from @ ''] '' @ message"
  by (simp add: log_def level_tag_def format_basicLogFormat split: option.split level.split)

text \<open>A warning whose message itself holds placeholders.\<close>

theorem log_line_format_witness:
  "snd (log ''12:00:00'' ''{3} {0}'' ''Login'' (Some Warn)) =
     ''[BrowsingSession-WARN] [12:00:00] [Login] {3} {0}''"
  using log_line_format[of "''12:00:00''" "''{3} {0}''" "''Login''" "Some Warn"]
  by (simp add: level_tag_def)

section \<open>The login sequencer\<close>

lemma click_then_type_ok:
  "click_result env sel = Fulfilled () \<Longrightarrow> type_result env sel = Fulfilled () \<Longrightarrow>
   click_then_type env sel text tag = ([Click sel, TypeText sel text], [])"
  by (simp add: click_then_type_def)

lemma solveCaptchas_this: "fst (solveCaptchas env this pg co) = this"
  by (simp add: solveCaptchas_def split: option.split promise.split)

lemma solve_then_submit_this: "fst (solve_then_submit env this) = this"
  using solveCaptchas_this[of env this "page this" "captchaOptions this"]
  by (auto simp: solve_then_submit_def split: prod.split promise.split)

lemma login_this: "fst (login env this) = this"
  using solve_then_submit_this[of env this]
  by (auto simp: login_def split: option.split promise.split prod.split)

lemma solve_then_submit_calls:
  "captcha_solved env this \<Longrightarrow> submitted env \<Longrightarrow> snd (snd (solve_then_submit env this)) = []"
  by (auto simp: solve_then_submit_def captcha_solved_def submitted_def
      split: prod.splits promise.splits option.splits)

lemma captcha_solved_page: "captcha_solved env this \<Longrightarrow> page this \<noteq> None"
  by (auto simp: captcha_solved_def solveCaptchas_def split: option.splits if_splits)

lemma login_calls_filled:
  assumes "fields_filled env" and "page this \<noteq> None"
  shows "snd (snd (login env this)) =
     snd (snd (solve_then_submit env this)) @
     (if page_url env = dashboard then [Resolve ''LOGIN_SUCCESS''] else []) @
     [Reject ''INVALID_CREDENTIALS'']"
  using assms
  by (auto simp: login_def fields_filled_def click_then_type_ok split: prod.splits)

text \<open>
  With a page at hand the promise of \<^verbatim>\<open>login\<close> always settles: every path through the
  body ends in a call of \<^verbatim>\<open>reject\<close>.
\<close>

lemma login_settles: "page this \<noteq> None \<Longrightarrow> login_outcome env this \<noteq> None"
  by (auto simp: login_outcome_def login_def settled_def
      split: option.splits promise.splits prod.splits list.splits)

lemma fields_filled_env_ok: "fields_filled env_ok"
  by (simp add: fields_filled_def env_ok_def)

lemma submitted_env_ok: "submitted env_ok"
  by (simp add: submitted_def env_ok_def)

lemma captcha_solved_env_ok: "captcha_solved env_ok (opened (Some capmonster_options))"
  by (simp add: captcha_solved_def solveCaptchas_def opened_def new_session_def
      capmonster_options_def env_ok_def)

lemma fields_filled_env_bad_credentials: "fields_filled env_bad_credentials"
  by (simp add: fields_filled_def env_bad_credentials_def env_ok_def)

lemma submitted_env_bad_credentials: "submitted env_bad_credentials"
  by (simp add: submitted_def env_bad_credentials_def env_ok_def)

lemma captcha_solved_env_bad_credentials:
  "captcha_solved env_bad_credentials (opened (Some capmonster_options))"
  by (simp add: captcha_solved_def solveCaptchas_def opened_def new_session_def
      capmonster_options_def env_bad_credentials_def env_ok_def)

lemma fields_filled_env_submit_timeout: "fields_filled env_submit_timeout"
  by (simp add: fields_filled_def env_submit_timeout_def env_ok_def)

lemma captcha_solved_env_submit_timeout:
  "captcha_solved env_submit_timeout (opened (Some capmonster_options))"
  by (simp add: captcha_solved_def solveCaptchas_def opened_def new_session_def
      capmonster_options_def env_submit_timeout_def env_ok_def)

lemma login_idle:
  assumes "page this \<noteq> None"
    and "waitForNavigation_result env (Some ''networkidle0'') = Fulfilled ()"
  shows "login env this =
    (this,
     WaitForNavigation (Some ''networkidle0'') #
       fst (click_then_type env ''input[name=username]'' (username (loginOptions this))
              ''USERNAME_FIELD_RELATED'') @
       fst (click_then_type env ''input[name=password]'' (password (loginOptions this))
              ''PASSWORD_FIELD_RELATED'') @
       fst (snd (solve_then_submit env this)),
     snd (click_then_type env ''input[name=username]'' (username (loginOptions this))
            ''USERNAME_FIELD_RELATED'') @
     snd (click_then_type env ''input[name=password]'' (password (loginOptions this))
            ''PASSWORD_FIELD_RELATED'') @
     snd (snd (solve_then_submit env this)) @
     (if page_url env = dashboard then [Resolve ''LOGIN_SUCCESS''] else []) @
     [Reject ''INVALID_CREDENTIALS''])"
proof -
  from assms(1) obtain p where "page this = Some p" by auto
  then show ?thesis
    using assms(2) by (simp add: login_def case_prod_beta solve_then_submit_this)
qed

lemma click_then_type_clicks: "Click sel \<in> set (fst (click_then_type env sel text tag))"
  by (simp add: click_then_type_def split: promise.split)

lemma click_then_type_failed:
  assumes "click_result env sel = Rejected e \<or> type_result env sel = Rejected e"
  shows "snd (click_then_type env sel text tag) = [Reject tag]"
  using assms by (auto simp: click_then_type_def split: promise.split)

text \<open>
  Whenever the username field fails, the promise is rejected with
  \<^verbatim>\<open>USERNAME_FIELD_RELATED\<close>, and the password field is clicked all the same: nothing
  leaves the body after the call of \<^verbatim>\<open>reject\<close>.
\<close>

lemma username_failure_goes_on:
  assumes "page this \<noteq> None"
    and "waitForNavigation_result env (Some ''networkidle0'') = Fulfilled ()"
    and "click_result env ''input[name=username]'' = Rejected e \<or>
         type_result env ''input[name=username]'' = Rejected e"
  shows "login_outcome env this = Some (Reject ''USERNAME_FIELD_RELATED'') \<and>
         Click ''input[name=password]'' \<in> set (login_effects env this)"
proof -
  have calls: "snd (click_then_type env ''input[name=username]'' (username (loginOptions this))
      ''USERNAME_FIELD_RELATED'') = [Reject ''USERNAME_FIELD_RELATED'']"
    using assms(3) by (rule click_then_type_failed)
  have "login_outcome env this = Some (Reject ''USERNAME_FIELD_RELATED'')"
    unfolding login_outcome_def login_idle[OF assms(1,2)] snd_conv calls
    by (simp add: settled_def)
  moreover have "Click ''input[name=password]'' \<in> set (login_effects env this)"
    unfolding login_effects_def login_idle[OF assms(1,2)] snd_conv fst_conv
    using click_then_type_clicks[of "''input[name=password]''" env]
    by simp
  ultimately show ?thesis by simp
qed

text \<open>
  Whenever both fields are filled and \<^verbatim>\<open>solveCaptchas\<close> returns \<^verbatim>\<open>undefined\<close>, the
  promise is rejected with the string \<^verbatim>\<open>Failed to solve captcha\<close>.
\<close>

lemma unsolved_captcha_outcome:
  assumes "fields_filled env" and "page this \<noteq> None"
    and "snd (snd (solveCaptchas env this (page this) (captchaOptions this))) = Fulfilled None"
  shows "login_outcome env this = Some (Reject ''Failed to solve captcha'')"
proof -
  have "\<exists>rest. snd (snd (solve_then_submit env this)) = Reject ''Failed to solve captcha'' # rest"
    using assms(3)
    by (cases "solveCaptchas env this (page this) (captchaOptions this)")
       (simp add: solve_then_submit_def)
  then show ?thesis
    unfolding login_outcome_def login_calls_filled[OF assms(1,2)]
    by (auto simp: settled_def)
qed

text \<open>
  Claim C1. Every login attempt produces exactly one terminal outcome, and that outcome is
  one of the six values of \<^verbatim>\<open>LoginResults\<close>. The code breaks the second half: with
  no CAPTCHA configured and both fields filled, it makes three calls in a row, and the
  first, which settles the promise, rejects with \<^verbatim>\<open>Failed to solve captcha\<close>, a
  string outside the enumeration.
\<close>

theorem login_outcome_outside_LoginResults:
  "snd (snd (login env_ok (opened None))) =
     [Reject ''Failed to solve captcha'', Resolve ''LOGIN_SUCCESS'',
      Reject ''INVALID_CREDENTIALS''] \<and>
   login_outcome env_ok (opened None) = Some (Reject ''Failed to solve captcha'') \<and>
   ''Failed to solve captcha'' \<notin> set LoginResults"
  by (simp add: login_outcome_def login_def click_then_type_def solve_then_submit_def
      solveCaptchas_def settled_def opened_def new_session_def env_ok_def LoginResults_def)

text \<open>
  Claim C2. When the username field cannot be used, the outcome is
  \<^verbatim>\<open>USERNAME_FIELD_RELATED\<close> and the sequencer does not go on to the password field.
  The code gives that outcome and goes on: it clicks and fills the password field, solves
  the CAPTCHA and clicks the submit button.
\<close>

theorem login_goes_on_after_username_failure:
  "click_result env_no_username ''input[name=username]'' =
     Rejected ''No node found for selector'' \<and>
   login_outcome env_no_username (opened (Some capmonster_options)) =
     Some (Reject ''USERNAME_FIELD_RELATED'') \<and>
   login_effects env_no_username (opened (Some capmonster_options)) =
     [WaitForNavigation (Some ''networkidle0''),
      Click ''input[name=username]'',
      Click ''input[name=password]'',
      TypeText ''input[name=password]'' (Str ''secret''),
      Log ''Solving captcha with CapMonster'' ''CaptchaSolver'' (Some Info),
      SolveRecaptchas,
      Log ''Successfully solved captcha! (Provider: capmonster)'' ''CaptchaSolver'' (Some Info),
      WaitForNavigation None,
      Click ''button[type=submit]'']"
  by (simp add: login_outcome_def login_effects_def login_def click_then_type_def
      solve_then_submit_def solveCaptchas_def settled_def opened_def new_session_def
      user_login_def capmonster_options_def env_no_username_def env_ok_def)

text \<open>
  Claim C3, as stated, fails: both fields are filled, the CAPTCHA is solved and the page
  is on the dashboard, but the navigation wait started with the submit click times out,
  so the first call is \<^verbatim>\<open>reject("CAPTCHA_FIELD_RELATED")\<close> and the later
  \<^verbatim>\<open>resolve("LOGIN_SUCCESS")\<close> is ignored.
\<close>

theorem login_dashboard_submit_timeout:
  "fields_filled env_submit_timeout \<and>
   captcha_solved env_submit_timeout (opened (Some capmonster_options)) \<and>
   page_url env_submit_timeout = dashboard \<and>
   login_outcome env_submit_timeout (opened (Some capmonster_options)) =
     Some (Reject ''CAPTCHA_FIELD_RELATED'') \<and>
   login_outcome env_submit_timeout (opened (Some capmonster_options)) \<noteq>
     Some (Resolve ''LOGIN_SUCCESS'')"
proof -
  have url: "page_url env_submit_timeout = dashboard"
    by (simp add: env_submit_timeout_def env_ok_def)
  have outcome: "login_outcome env_submit_timeout (opened (Some capmonster_options)) =
      Some (Reject ''CAPTCHA_FIELD_RELATED'')"
    by (simp add: login_outcome_def login_def click_then_type_def solve_then_submit_def
        solveCaptchas_def settled_def opened_def new_session_def capmonster_options_def
        env_submit_timeout_def env_ok_def)
  from fields_filled_env_submit_timeout captcha_solved_env_submit_timeout url outcome
  show ?thesis by simp
qed

text \<open>
  Claim C3, amended. When both fields are filled, the CAPTCHA is solved, the submit click
  and its navigation wait complete, and the page is then on the dashboard URL, the outcome
  is \<^verbatim>\<open>LOGIN_SUCCESS\<close>.
\<close>

theorem login_success_at_dashboard:
  assumes "fields_filled env" and "captcha_solved env this" and "submitted env"
    and "page_url env = dashboard"
  shows "login_outcome env this = Some (Resolve ''LOGIN_SUCCESS'')"
  using assms login_calls_filled[OF assms(1) captcha_solved_page[OF assms(2)]]
    solve_then_submit_calls[OF assms(2,3)]
  by (simp add: login_outcome_def settled_def)

theorem login_success_at_dashboard_witness:
  "fields_filled env_ok \<and> captcha_solved env_ok (opened (Some capmonster_options)) \<and>
   submitted env_ok \<and> page_url env_ok = dashboard \<and>
   login_outcome env_ok (opened (Some capmonster_options)) = Some (Resolve ''LOGIN_SUCCESS'')"
proof -
  have url: "page_url env_ok = dashboard"
    by (simp add: env_ok_def)
  from login_success_at_dashboard[OF fields_filled_env_ok captcha_solved_env_ok
      submitted_env_ok url]
    fields_filled_env_ok captcha_solved_env_ok submitted_env_ok url
  show ?thesis by simp
qed

text \<open>
  Claim C4, as stated, fails in the same way: fields filled, CAPTCHA solved, the page not
  on the dashboard, and the navigation wait of the submission timed out; the outcome is
  \<^verbatim>\<open>CAPTCHA_FIELD_RELATED\<close>, not \<^verbatim>\<open>INVALID_CREDENTIALS\<close>.
\<close>

theorem login_elsewhere_submit_timeout:
  "fields_filled env_submit_timeout_login \<and>
   captcha_solved env_submit_timeout_login (opened (Some capmonster_options)) \<and>
   page_url env_submit_timeout_login \<noteq> dashboard \<and>
   login_outcome env_submit_timeout_login (opened (Some capmonster_options)) =
     Some (Reject ''CAPTCHA_FIELD_RELATED'') \<and>
   login_outcome env_submit_timeout_login (opened (Some capmonster_options)) \<noteq>
     Some (Reject ''INVALID_CREDENTIALS'')"
  by (simp add: fields_filled_def captcha_solved_def dashboard_def login_outcome_def login_def
      click_then_type_def solve_then_submit_def solveCaptchas_def settled_def opened_def
      new_session_def capmonster_options_def env_submit_timeout_login_def
      env_submit_timeout_def env_ok_def)

text \<open>
  Claim C4, amended. When both fields are filled, the CAPTCHA is solved, the submit click
  and its navigation wait complete, and the page is then on a URL other than the
  dashboard URL, the outcome is \<^verbatim>\<open>INVALID_CREDENTIALS\<close>.
\<close>

theorem login_invalid_credentials_elsewhere:
  assumes "fields_filled env" and "captcha_solved env this" and "submitted env"
    and "page_url env \<noteq> dashboard"
  shows "login_outcome env this = Some (Reject ''INVALID_CREDENTIALS'')"
  using assms login_calls_filled[OF assms(1) captcha_solved_page[OF assms(2)]]
    solve_then_submit_calls[OF assms(2,3)]
  by (simp add: login_outcome_def settled_def)

theorem login_invalid_credentials_elsewhere_witness:
  "fields_filled env_bad_credentials \<and>
   captcha_solved env_bad_credentials (opened (Some capmonster_options)) \<and>
   submitted env_bad_credentials \<and> page_url env_bad_credentials \<noteq> dashboard \<and>
   login_outcome env_bad_credentials (opened (Some capmonster_options)) =
     Some (Reject ''INVALID_CREDENTIALS'')"
proof -
  have url: "page_url env_bad_credentials \<noteq> dashboard"
    by (simp add: env_bad_credentials_def dashboard_def)
  from login_invalid_credentials_elsewhere[OF fields_filled_env_bad_credentials
      captcha_solved_env_bad_credentials submitted_env_bad_credentials url]
    fields_filled_env_bad_credentials captcha_solved_env_bad_credentials
    submitted_env_bad_credentials url
  show ?thesis by simp
qed

section \<open>The CAPTCHA shim\<close>

text \<open>
  Claim C7, as stated, fails for the provider \<^verbatim>\<open>2captcha\<close>: it is not the
  \<^verbatim>\<open>capmonster\<close> branch, and the call returns \<^verbatim>\<open>undefined\<close>, but nothing is
  logged (its branch is an empty \<^verbatim>\<open>TODO\<close>).
\<close>

theorem solveCaptchas_2captcha_silent:
  "id_captcha twocaptcha_options \<noteq> Str ''capmonster'' \<and>
   solveCaptchas env_ok (opened (Some twocaptcha_options)) (Some Page)
       (Some twocaptcha_options) =
     (opened (Some twocaptcha_options), [], Fulfilled None)"
  by (simp add: solveCaptchas_def twocaptcha_options_def)

text \<open>
  Claim C7, amended. For every provider id other than \<^verbatim>\<open>capmonster\<close>,
  \<^verbatim>\<open>solveCaptchas\<close> returns \<^verbatim>\<open>undefined\<close> and does not throw; it logs
  \<^verbatim>\<open>Invalid captcha provider specified\<close> as an error unless the id is
  \<^verbatim>\<open>2captcha\<close>, for which it logs nothing.
\<close>

theorem solveCaptchas_other_provider:
  assumes "id_captcha c \<noteq> Str ''capmonster''"
  shows "solveCaptchas env this pg (Some c) =
     (this,
      (if id_captcha c = Str ''2captcha'' then []
       else [Log ''Invalid captcha provider specified'' ''CaptchaSolver'' (Some Error)]),
      Fulfilled None)"
  using assms by (simp add: solveCaptchas_def)

theorem solveCaptchas_other_provider_witness:
  "id_captcha unknown_options \<noteq> Str ''capmonster'' \<and>
   solveCaptchas env_ok (opened (Some unknown_options)) (Some Page) (Some unknown_options) =
     (opened (Some unknown_options),
      [Log ''Invalid captcha provider specified'' ''CaptchaSolver'' (Some Error)],
      Fulfilled None)"
proof -
  have other: "id_captcha unknown_options \<noteq> Str ''capmonster''"
    by (simp add: unknown_options_def)
  have "id_captcha unknown_options \<noteq> Str ''2captcha''"
    by (simp add: unknown_options_def)
  with solveCaptchas_other_provider[OF other, of env_ok "opened (Some unknown_options)" "Some Page"]
    other
  show ?thesis by simp
qed

section \<open>The constructor\<close>

text \<open>
  Claim C5, as stated, fails on the configuration of \<^verbatim>\<open>main.ts\<close>: the username is
  empty, but the CAPTCHA token is empty too, so the constructor returns at the CAPTCHA
  check and never logs the invalid login options.
\<close>

theorem constructor_main_no_login_error:
  "empty_value (username main_login) \<and>
   constructor env_ok main_login (Some main_captcha) (Some True) =
     (new_session main_login (Some main_captcha) (Some True),
      [Log ''Invalid captcha options provided'' ''CaptchaSolver'' (Some Error)],
      None) \<and>
   Log ''Invalid login options provided'' ''Login'' (Some Error) \<notin>
     set (fst (snd (constructor env_ok main_login (Some main_captcha) (Some True))))"
  by (simp add: empty_value_def constructor_def new_session_def main_login_def
      main_captcha_def)

text \<open>
  Claim C5, amended. When the username or the password is empty, \<^verbatim>\<open>null\<close> or
  \<^verbatim>\<open>undefined\<close>, the constructor launches no browser and does not call
  \<^verbatim>\<open>run\<close>; it logs one error and returns: the invalid login options when no CAPTCHA
  configuration is given or the given one is valid (the plugin is then registered
  first), the invalid CAPTCHA options when the given one has an empty id or token.
\<close>

theorem constructor_invalid_login:
  assumes "empty_value (username lo) \<or> empty_value (password lo)"
  shows "constructor env lo captcha dbg =
     (new_session lo captcha dbg,
      (case captcha of
         None \<Rightarrow> [Log ''Invalid login options provided'' ''Login'' (Some Error)]
       | Some c \<Rightarrow>
           if empty_value (id_captcha c) \<or> empty_value (token c)
           then [Log ''Invalid captcha options provided'' ''CaptchaSolver'' (Some Error)]
           else [UsePlugin (id_captcha c) (token c) (or_false (visualFeedback c)),
                 Log ''Captcha options set, continuing to validate login options''
                   ''CaptchaSolver'' (Some Info),
                 Log ''Invalid login options provided'' ''Login'' (Some Error)]),
      None) \<and>
    filter is_Launch (fst (snd (constructor env lo captcha dbg))) = []"
  using assms
  by (auto simp: constructor_def validate_login_then_run_def nonNullEmpty_pair new_session_def
      simp del: nonNullEmpty.simps split: option.splits)

theorem constructor_invalid_login_witness:
  "empty_value (username main_login) \<and>
   constructor env_ok main_login None (Some True) =
     (new_session main_login None (Some True),
      [Log ''Invalid login options provided'' ''Login'' (Some Error)],
      None) \<and>
   filter is_Launch (fst (snd (constructor env_ok main_login None (Some True)))) = []"
proof -
  have empty: "empty_value (username main_login)"
    by (simp add: empty_value_def main_login_def)
  then have "empty_value (username main_login) \<or> empty_value (password main_login)"
    by simp
  from constructor_invalid_login[OF this, of env_ok None "Some True"] empty
  show ?thesis by simp
qed

text \<open>
  Claim C6. Given a CAPTCHA configuration whose provider id or token is empty,
  \<^verbatim>\<open>null\<close> or \<^verbatim>\<open>undefined\<close>, the constructor logs the error and returns: the
  plugin is not registered, no browser is launched and \<^verbatim>\<open>run\<close> is not called,
  whatever the login options are.
\<close>

theorem constructor_invalid_captcha:
  assumes "empty_value (id_captcha c) \<or> empty_value (token c)"
  shows "constructor env lo (Some c) dbg =
     (new_session lo (Some c) dbg,
      [Log ''Invalid captcha options provided'' ''CaptchaSolver'' (Some Error)],
      None) \<and>
    filter is_UsePlugin (fst (snd (constructor env lo (Some c) dbg))) = [] \<and>
    filter is_Launch (fst (snd (constructor env lo (Some c) dbg))) = []"
  using assms
  by (auto simp: constructor_def nonNullEmpty_pair new_session_def
      simp del: nonNullEmpty.simps)

theorem constructor_invalid_captcha_witness:
  "empty_value (token main_captcha) \<and>
   constructor env_ok user_login (Some main_captcha) None =
     (new_session user_login (Some main_captcha) None,
      [Log ''Invalid captcha options provided'' ''CaptchaSolver'' (Some Error)],
      None) \<and>
   filter is_UsePlugin (fst (snd (constructor env_ok user_login (Some main_captcha) None))) = [] \<and>
   filter is_Launch (fst (snd (constructor env_ok user_login (Some main_captcha) None))) = []"
proof -
  have empty: "empty_value (token main_captcha)"
    by (simp add: empty_value_def main_captcha_def)
  then have "empty_value (id_captcha main_captcha) \<or> empty_value (token main_captcha)"
    by simp
  from constructor_invalid_captcha[OF this, of env_ok user_login None] empty
  show ?thesis by simp
qed

section \<open>The configuration is never written\<close>

lemma login_thisD: "login env this = (this', es, calls) \<Longrightarrow> this' = this"
  using login_this[of env this] by simp

lemma run_config: "config (fst (run env this)) = config this"
  by (auto simp: run_def config_def split: promise.splits prod.splits dest!: login_thisD)

lemma constructor_config:
  "config (fst (constructor env lo captcha dbg)) = (lo, captcha, or_false dbg)"
  using run_config[of env "new_session lo captcha dbg"]
  by (auto simp: constructor_def validate_login_then_run_def config_def new_session_def
      split: option.splits prod.splits)

text \<open>
  Claim C9. The configuration of a session (login options, CAPTCHA options, debug flag)
  is fixed by the constructor: it holds the constructor's arguments when the constructor
  is done, and none of \<^verbatim>\<open>run\<close>, \<^verbatim>\<open>login\<close> and \<^verbatim>\<open>solveCaptchas\<close> changes it.
\<close>

theorem configuration_unchanged:
  "config (fst (run env this)) = config this \<and>
   config (fst (login env this)) = config this \<and>
   config (fst (solveCaptchas env this pg co)) = config this \<and>
   config (fst (constructor env lo captcha dbg)) = (lo, captcha, or_false dbg)"
  by (simp add: run_config login_this solveCaptchas_this constructor_config)

text \<open>A complete run: the session ends with a browser and a page, and the configuration it got.\<close>

theorem configuration_unchanged_witness:
  "config (fst (constructor env_ok user_login (Some capmonster_options) (Some True))) =
     (user_login, Some capmonster_options, True) \<and>
   config (fst (run env_ok (new_session user_login (Some capmonster_options) (Some True)))) =
     (user_login, Some capmonster_options, True)"
  using configuration_unchanged[of env_ok
      "new_session user_login (Some capmonster_options) (Some True)" None None
      user_login "Some capmonster_options" "Some True"]
  by (simp add: config_def new_session_def or_false_def)

end
